theory Spec2Isabelle
  imports Main "HOL-Library.Sublist"
begin

section \<open>The Python values the handler module works with\<close>

text \<open>
  The module \<^verbatim>\<open>src/dbt/handler.py\<close> is embedded function by function. Python strings
  are byte strings in UTF-8 here, so the two non-ASCII marks the module prints are three
  bytes each. Exceptions are values carrying the text that \<^verbatim>\<open>str(e)\<close> gives. The first
  four classes derive from Python's \<^verbatim>\<open>Exception\<close>; \<^verbatim>\<open>KeyboardInterrupt\<close> and
  \<^verbatim>\<open>SystemExit\<close> derive from \<^verbatim>\<open>BaseException\<close> only, so a clause
  \<^verbatim>\<open>except Exception\<close> does not catch them.
\<close>

datatype exc =
    Exception string
  | ValueError string
  | RuntimeError string
  | OSError string
  | KeyboardInterrupt string
  | SystemExit string

fun exc_str :: "exc \<Rightarrow> string" where
  "exc_str (Exception m) = m"
| "exc_str (ValueError m) = m"
| "exc_str (RuntimeError m) = m"
| "exc_str (OSError m) = m"
| "exc_str (KeyboardInterrupt m) = m"
| "exc_str (SystemExit m) = m"

text \<open>\<^verbatim>\<open>isinstance(e, Exception)\<close>: what \<^verbatim>\<open>except Exception\<close> catches.\<close>

fun is_Exception :: "exc \<Rightarrow> bool" where
  "is_Exception (KeyboardInterrupt m) = False"
| "is_Exception (SystemExit m) = False"
| "is_Exception _ = True"

definition check_mark :: string where
  "check_mark = [CHR 0xE2, CHR 0x9C, CHR 0x93]"

definition ballot_x :: string where
  "ballot_x = [CHR 0xE2, CHR 0x9C, CHR 0x97]"

text \<open>\<^verbatim>\<open>sep.join(xs)\<close> on a list of strings.\<close>

fun join :: "string \<Rightarrow> string list \<Rightarrow> string" where
  "join sep [] = []"
| "join sep [x] = x"
| "join sep (x # y # ys) = x @ sep @ join sep (y # ys)"

text \<open>
  \<^verbatim>\<open>os.environ\<close> is a dictionary from names to strings. \<^verbatim>\<open>os.getenv(k)\<close> gives
  \<^verbatim>\<open>None\<close> for a name that is not set, \<^verbatim>\<open>os.getenv(k, d)\<close> gives \<^verbatim>\<open>d\<close> then; a
  name set to the empty string is set.
\<close>

type_synonym environ = "string \<rightharpoonup> string"

definition getenv :: "environ \<Rightarrow> string \<Rightarrow> string option" where
  "getenv env k = env k"

definition getenv_default :: "environ \<Rightarrow> string \<Rightarrow> string \<Rightarrow> string" where
  "getenv_default env k d = (case env k of None \<Rightarrow> d | Some v \<Rightarrow> v)"

text \<open>
  The invocation event is a dictionary whose values are token lists, as the request
  format has them; \<^verbatim>\<open>event.get(k, d)\<close> gives \<^verbatim>\<open>d\<close> only when the key is absent.
\<close>

type_synonym event = "string \<rightharpoonup> string list"

definition dict_get :: "event \<Rightarrow> string \<Rightarrow> string list \<Rightarrow> string list" where
  "dict_get ev k d = (case ev k of None \<Rightarrow> d | Some v \<Rightarrow> v)"

section \<open>The process state and the two external programs\<close>

text \<open>
  What \<^verbatim>\<open>print\<close> writes is kept as a list of lines; the event and the context are
  printed as objects, so their lines hold the object rather than its text.
\<close>

datatype 'c line = Text string | Event_object event | Context_object 'c

text \<open>
  The state threaded through the module: the process environment, the module-level list
  \<^verbatim>\<open>default_args\<close>, the lines printed so far, the argument vector of every
  \<^verbatim>\<open>subprocess.run\<close> call and of every \<^verbatim>\<open>dbt.invoke\<close> call made so far, and the world
  outside the interpreter (the local directories and the remote bucket), which only the
  two external programs read and change.
\<close>

record ('w, 'c) state =
  environ :: environ
  default_args :: "string list"
  printed :: "'c line list"
  subprocess_calls :: "string list list"
  dbt_invocations :: "string list list"
  world :: 'w

record completed_process =
  returncode :: int
  stdout :: string
  stderr :: string

record dbtRunnerResult =
  success :: bool

text \<open>
  The transfer command and the transformation tool are parameters. Running the transfer
  command either raises (the command could not be started, or the process was
  interrupted while it waited) or completes with an exit code and its captured output; \<^verbatim>\<open>check=False\<close> means a non-zero exit code is a
  completed run, not an exception. Both programs may change the outside world.
\<close>

type_synonym 'w runner = "string list \<Rightarrow> 'w \<Rightarrow> (exc + completed_process) \<times> 'w"

type_synonym 'w dbt_runner = "string list \<Rightarrow> 'w \<Rightarrow> dbtRunnerResult \<times> 'w"

definition print :: "'c line \<Rightarrow> ('w, 'c) state \<Rightarrow> ('w, 'c) state" where
  "print l st = st\<lparr>printed := printed st @ [l]\<rparr>"

definition subprocess_run ::
  "'w runner \<Rightarrow> string list \<Rightarrow> ('w, 'c) state \<Rightarrow> (exc + completed_process) \<times> ('w, 'c) state" where
  "subprocess_run run argv st =
     (case run argv (world st) of
        (r, w') \<Rightarrow> (r, st\<lparr>subprocess_calls := subprocess_calls st @ [argv], world := w'\<rparr>))"

definition dbt_invoke ::
  "'w dbt_runner \<Rightarrow> string list \<Rightarrow> ('w, 'c) state \<Rightarrow> dbtRunnerResult \<times> ('w, 'c) state" where
  "dbt_invoke dbt args st =
     (case dbt args (world st) of
        (res, w') \<Rightarrow> (res, st\<lparr>dbt_invocations := dbt_invocations st @ [args], world := w'\<rparr>))"

section \<open>Restoring and persisting the target directory\<close>

definition s3_path_of :: "string \<Rightarrow> string \<Rightarrow> string" where
  "s3_path_of bucket environment = ''s3://'' @ bucket @ ''/'' @ environment @ ''/target/''"

text \<open>
  The statements inside the \<^verbatim>\<open>try\<close> of \<^verbatim>\<open>restore_target_from_s3\<close>. In the function
  itself, \<^verbatim>\<open>not dbt_state_bucket\<close> holds of \<^verbatim>\<open>None\<close> and of the empty string.
\<close>

definition restore_try ::
  "'w runner \<Rightarrow> string \<Rightarrow> string \<Rightarrow> ('w, 'c) state \<Rightarrow> (exc + unit) \<times> ('w, 'c) state" where
  "restore_try run dbt_state_bucket environment st0 =
     (let s3_path = s3_path_of dbt_state_bucket environment;
          st1 = print (Text (''Restoring previous dbt state from '' @ s3_path)) st0
      in case subprocess_run run
                [''aws'', ''s3'', ''sync'', s3_path, ''/tmp/target-base'', ''--quiet''] st1 of
           (Inl e, st2) \<Rightarrow> (Inl e, st2)
         | (Inr result, st2) \<Rightarrow>
             if returncode result = 0
             then (Inr (), print (Text (check_mark @
                     '' Successfully restored previous state to /tmp/target-base'')) st2)
             else (Inr (), print (Text
                     ''INFO: No previous state found in S3 (first run or empty bucket)'') st2))"

definition restore_target_from_s3 ::
  "'w runner \<Rightarrow> ('w, 'c) state \<Rightarrow> (exc + unit) \<times> ('w, 'c) state" where
  "restore_target_from_s3 run st =
     (let dbt_state_bucket = getenv (environ st) ''DBT_STATE_BUCKET'';
          environment = getenv_default (environ st) ''ENVIRONMENT'' ''dev'';
          not_set = (Inr (), print (Text
                 ''INFO: DBT_STATE_BUCKET not set. Starting with clean state.'') st)
      in case dbt_state_bucket of
           None \<Rightarrow> not_set
         | Some bucket \<Rightarrow>
             if bucket = [] then not_set
             else (case restore_try run bucket environment st of
                     (Inl e, st') \<Rightarrow>
                       if is_Exception e
                       then (Inr (), print (Text
                               (''INFO: Failed to restore state from S3: '' @ exc_str e)) st')
                       else (Inl e, st')
                   | (Inr u, st') \<Rightarrow> (Inr u, st')))"

text \<open>The statements inside the \<^verbatim>\<open>try\<close> of \<^verbatim>\<open>sync_target_to_s3\<close>.\<close>

definition sync_try ::
  "'w runner \<Rightarrow> string \<Rightarrow> string \<Rightarrow> ('w, 'c) state \<Rightarrow> (exc + unit) \<times> ('w, 'c) state" where
  "sync_try run dbt_state_bucket environment st0 =
     (let s3_path = s3_path_of dbt_state_bucket environment;
          st1 = print (Text (''Syncing dbt target to '' @ s3_path)) st0
      in case subprocess_run run
                [''aws'', ''s3'', ''sync'', ''/tmp/target'', s3_path, ''--delete'', ''--quiet''] st1 of
           (Inl e, st2) \<Rightarrow> (Inl e, st2)
         | (Inr result, st2) \<Rightarrow>
             if returncode result = 0
             then (Inr (), print (Text (check_mark @
                     '' Successfully synced dbt target to '' @ s3_path)) st2)
             else (Inr (),
                   print (Text (''stderr: '' @ stderr result))
                     (print (Text (''stdout: '' @ stdout result))
                        (print (Text ''WARNING: Failed to sync target to S3'') st2))))"

definition sync_target_to_s3 ::
  "'w runner \<Rightarrow> ('w, 'c) state \<Rightarrow> (exc + unit) \<times> ('w, 'c) state" where
  "sync_target_to_s3 run st =
     (let dbt_state_bucket = getenv (environ st) ''DBT_STATE_BUCKET'';
          environment = getenv_default (environ st) ''ENVIRONMENT'' ''dev'';
          not_set = (Inr (), print (Text
                 ''WARNING: DBT_STATE_BUCKET not set. Skipping state sync.'') st)
      in case dbt_state_bucket of
           None \<Rightarrow> not_set
         | Some bucket \<Rightarrow>
             if bucket = [] then not_set
             else (case sync_try run bucket environment st of
                     (Inl e, st') \<Rightarrow>
                       if is_Exception e
                       then (Inr (), print (Text
                               (''ERROR: Failed to sync target to S3: '' @ exc_str e)) st')
                       else (Inl e, st')
                   | (Inr u, st') \<Rightarrow> (Inr u, st')))"

section \<open>Loading the module\<close>

text \<open>
  At import the module creates three directories, pins four environment variables and
  builds \<^verbatim>\<open>default_args\<close> once, reading \<^verbatim>\<open>ENVIRONMENT\<close> at that moment.
\<close>

definition made_dirs :: "string list" where
  "made_dirs = [''/tmp/logs'', ''/tmp/target'', ''/tmp/target-base'']"

definition set_environ :: "environ \<Rightarrow> environ" where
  "set_environ env =
     env(''DBT_LOG_PATH'' \<mapsto> ''/tmp/logs'',
         ''DBT_TARGET_PATH'' \<mapsto> ''/tmp/target'',
         ''DBT_PROFILES_DIR'' \<mapsto> ''.'',
         ''DBT_USER_CONFIG_DIR'' \<mapsto> ''/tmp'')"

definition make_default_args :: "environ \<Rightarrow> string list" where
  "make_default_args env =
     [''--target'', ''dev'',
      ''--log-path'', ''/tmp/logs'',
      ''--target-path'', ''/tmp/target'',
      ''--target'', getenv_default env ''ENVIRONMENT'' ''dev'',
      ''--profiles-dir'', ''.'']"

definition load_module :: "environ \<Rightarrow> 'w \<Rightarrow> ('w, 'c) state" where
  "load_module env w =
     \<lparr>environ = set_environ env,
      default_args = make_default_args (set_environ env),
      printed = [],
      subprocess_calls = [],
      dbt_invocations = [],
      world = w\<rparr>"

section \<open>The handler\<close>

record response =
  statusCode :: int
  body :: string

text \<open>
  The two calls \<^verbatim>\<open>restore_target_from_s3()\<close> and \<^verbatim>\<open>sync_target_to_s3()\<close> are commented
  out in the handler, so the handler takes no transfer command. On a failed run the
  handler raises before it reaches its \<^verbatim>\<open>return\<close>.
\<close>

definition handler ::
  "'w dbt_runner \<Rightarrow> event \<Rightarrow> 'c \<Rightarrow> ('w, 'c) state \<Rightarrow> (exc + response) \<times> ('w, 'c) state" where
  "handler dbt event context st0 =
     (let st1 = print (Event_object event) st0;
          st2 = print (Context_object context) st1;
          command = dict_get event ''command'' [''build''];
          cli_args = dict_get event ''cli_args'' [''--select'', ''+my_second_dbt_model''];
          st3 = print (Text (''Running dbt '' @ join '' '' command @ '' '' @ join '' '' cli_args)) st2
      in case dbt_invoke dbt (command @ default_args st3 @ cli_args) st3 of
           (res, st4) \<Rightarrow>
             if success res
             then (let st5 = print (Text (check_mark @ '' DBT build succeeded'')) st4;
                       st6 = print (Text ''Uploading state to S3...'') st5
                   in (Inr \<lparr>statusCode = (if success res then 200 else 500),
                            body = ''DBT build completed''\<rparr>, st6))
             else (let st5 = print (Text (ballot_x @ '' DBT build failed'')) st4
                   in (Inl (Exception ''DBT build failed''), st5)))"

section \<open>The synchronisation shim\<close>

text \<open>
  \<^verbatim>\<open>patch_multiprocessing\<close> defines four classes, each a wrapper around one object of
  Python's \<^verbatim>\<open>threading\<close> module, and stores them under the four names of
  \<^verbatim>\<open>multiprocessing.synchronize\<close>. The wrapped objects are modelled as one thread sees
  them, following the standard library: a call returns, raises, or blocks for ever (with
  one thread nobody else can release). \<^verbatim>\<open>acquire\<close> is the blocking call without a
  timeout, which is what \<^verbatim>\<open>__enter__\<close> makes.
\<close>

datatype 'a outcome = Returns 'a | Raises exc | Blocks

text \<open>
  A reentrant lock holds the number of times its one thread has acquired it, an
  exclusive lock whether it is locked, a semaphore its counter, a bounded semaphore its
  counter and the initial value.
\<close>

datatype rlock = RLock nat
datatype lock = Lock bool
datatype semaphore = Semaphore int
datatype bounded_semaphore = BoundedSemaphore int int

definition threading_RLock :: "rlock outcome" where
  "threading_RLock = Returns (RLock 0)"

definition threading_Lock :: "lock outcome" where
  "threading_Lock = Returns (Lock False)"

definition threading_Semaphore :: "int \<Rightarrow> semaphore outcome" where
  "threading_Semaphore v =
     (if v < 0 then Raises (ValueError ''semaphore initial value must be >= 0'')
      else Returns (Semaphore v))"

definition threading_BoundedSemaphore :: "int \<Rightarrow> bounded_semaphore outcome" where
  "threading_BoundedSemaphore v =
     (if v < 0 then Raises (ValueError ''semaphore initial value must be >= 0'')
      else Returns (BoundedSemaphore v v))"

fun RLock_acquire :: "rlock \<Rightarrow> (bool \<times> rlock) outcome" where
  "RLock_acquire (RLock n) = Returns (True, RLock (Suc n))"

fun RLock_release :: "rlock \<Rightarrow> (unit \<times> rlock) outcome" where
  "RLock_release (RLock 0) = Raises (RuntimeError ''cannot release un-acquired lock'')"
| "RLock_release (RLock (Suc n)) = Returns ((), RLock n)"

fun Lock_acquire :: "lock \<Rightarrow> (bool \<times> lock) outcome" where
  "Lock_acquire (Lock b) = (if b then Blocks else Returns (True, Lock True))"

fun Lock_release :: "lock \<Rightarrow> (unit \<times> lock) outcome" where
  "Lock_release (Lock b) =
     (if b then Returns ((), Lock False) else Raises (RuntimeError ''release unlocked lock''))"

fun Semaphore_acquire :: "semaphore \<Rightarrow> (bool \<times> semaphore) outcome" where
  "Semaphore_acquire (Semaphore v) =
     (if v = 0 then Blocks else Returns (True, Semaphore (v - 1)))"

fun Semaphore_release :: "semaphore \<Rightarrow> (unit \<times> semaphore) outcome" where
  "Semaphore_release (Semaphore v) = Returns ((), Semaphore (v + 1))"

fun BoundedSemaphore_acquire ::
  "bounded_semaphore \<Rightarrow> (bool \<times> bounded_semaphore) outcome" where
  "BoundedSemaphore_acquire (BoundedSemaphore v i) =
     (if v = 0 then Blocks else Returns (True, BoundedSemaphore (v - 1) i))"

fun BoundedSemaphore_release ::
  "bounded_semaphore \<Rightarrow> (unit \<times> bounded_semaphore) outcome" where
  "BoundedSemaphore_release (BoundedSemaphore v i) =
     (if v + 1 > i then Raises (ValueError ''Semaphore released too many times'')
      else Returns ((), BoundedSemaphore (v + 1) i))"

text \<open>
  The four classes of the shim. An instance holds the wrapped object in its one field
  (\<^verbatim>\<open>_lock\<close> or \<^verbatim>\<open>_sem\<close>); every method hands the call on to it.
\<close>

datatype mock =
    MockRLock rlock
  | MockLock lock
  | MockSemaphore semaphore
  | MockBoundedSemaphore bounded_semaphore

fun construct :: "('p \<Rightarrow> mock) \<Rightarrow> 'p outcome \<Rightarrow> mock outcome" where
  "construct C (Returns p) = Returns (C p)"
| "construct C (Raises e) = Raises e"
| "construct C Blocks = Blocks"

fun delegate :: "('p \<Rightarrow> mock) \<Rightarrow> ('r \<times> 'p) outcome \<Rightarrow> ('r \<times> mock) outcome" where
  "delegate C (Returns (r, p)) = Returns (r, C p)"
| "delegate C (Raises e) = Raises e"
| "delegate C Blocks = Blocks"

text \<open>
  The constructors take \<^verbatim>\<open>*args\<close> and \<^verbatim>\<open>**kwargs\<close> and do not read them; the two
  semaphore classes take \<^verbatim>\<open>value=1\<close> in front, \<open>None\<close> standing for a call that does
  not pass it.
\<close>

definition MockRLock_init :: "'a list \<Rightarrow> (string \<times> 'a) list \<Rightarrow> mock outcome" where
  "MockRLock_init args kwargs = construct MockRLock threading_RLock"

definition MockLock_init :: "'a list \<Rightarrow> (string \<times> 'a) list \<Rightarrow> mock outcome" where
  "MockLock_init args kwargs = construct MockLock threading_Lock"

definition MockSemaphore_init ::
  "int option \<Rightarrow> 'a list \<Rightarrow> (string \<times> 'a) list \<Rightarrow> mock outcome" where
  "MockSemaphore_init value args kwargs =
     construct MockSemaphore (threading_Semaphore (case value of None \<Rightarrow> 1 | Some v \<Rightarrow> v))"

definition MockBoundedSemaphore_init ::
  "int option \<Rightarrow> 'a list \<Rightarrow> (string \<times> 'a) list \<Rightarrow> mock outcome" where
  "MockBoundedSemaphore_init value args kwargs =
     construct MockBoundedSemaphore
       (threading_BoundedSemaphore (case value of None \<Rightarrow> 1 | Some v \<Rightarrow> v))"

fun mock_enter :: "mock \<Rightarrow> (bool \<times> mock) outcome" where
  "mock_enter (MockRLock l) = delegate MockRLock (RLock_acquire l)"
| "mock_enter (MockLock l) = delegate MockLock (Lock_acquire l)"
| "mock_enter (MockSemaphore s) = delegate MockSemaphore (Semaphore_acquire s)"
| "mock_enter (MockBoundedSemaphore s) =
     delegate MockBoundedSemaphore (BoundedSemaphore_acquire s)"

text \<open>
  \<^verbatim>\<open>__exit__(*args)\<close> receives the exception that left the block, or \<open>None\<close>, and
  releases either way.
\<close>

fun mock_exit :: "exc option \<Rightarrow> mock \<Rightarrow> (unit \<times> mock) outcome" where
  "mock_exit a (MockRLock l) = delegate MockRLock (RLock_release l)"
| "mock_exit a (MockLock l) = delegate MockLock (Lock_release l)"
| "mock_exit a (MockSemaphore s) = delegate MockSemaphore (Semaphore_release s)"
| "mock_exit a (MockBoundedSemaphore s) =
     delegate MockBoundedSemaphore (BoundedSemaphore_release s)"

fun mock_acquire :: "mock \<Rightarrow> (bool \<times> mock) outcome" where
  "mock_acquire (MockRLock l) = delegate MockRLock (RLock_acquire l)"
| "mock_acquire (MockLock l) = delegate MockLock (Lock_acquire l)"
| "mock_acquire (MockSemaphore s) = delegate MockSemaphore (Semaphore_acquire s)"
| "mock_acquire (MockBoundedSemaphore s) =
     delegate MockBoundedSemaphore (BoundedSemaphore_acquire s)"

fun mock_release :: "mock \<Rightarrow> (unit \<times> mock) outcome" where
  "mock_release (MockRLock l) = delegate MockRLock (RLock_release l)"
| "mock_release (MockLock l) = delegate MockLock (Lock_release l)"
| "mock_release (MockSemaphore s) = delegate MockSemaphore (Semaphore_release s)"
| "mock_release (MockBoundedSemaphore s) =
     delegate MockBoundedSemaphore (BoundedSemaphore_release s)"

text \<open>Only \<^verbatim>\<open>MockRLock\<close> has \<^verbatim>\<open>_is_owned\<close>; \<open>None\<close> says the class has no such method.\<close>

fun is_owned :: "mock \<Rightarrow> bool option" where
  "is_owned (MockRLock l) = Some True"
| "is_owned _ = None"

text \<open>
  The four assignments at the end of \<^verbatim>\<open>patch_multiprocessing\<close>: the constructor found
  under each name of \<^verbatim>\<open>multiprocessing.synchronize\<close> afterwards. The lock classes have
  no \<^verbatim>\<open>value\<close> parameter, so whatever is passed to them lands in \<^verbatim>\<open>args\<close> or
  \<^verbatim>\<open>kwargs\<close>.
\<close>

datatype primitive_name = RLock_name | Lock_name | Semaphore_name | BoundedSemaphore_name

fun patch_multiprocessing ::
  "primitive_name \<Rightarrow> int option \<Rightarrow> 'a list \<Rightarrow> (string \<times> 'a) list \<Rightarrow> mock outcome" where
  "patch_multiprocessing RLock_name value args kwargs = MockRLock_init args kwargs"
| "patch_multiprocessing Lock_name value args kwargs = MockLock_init args kwargs"
| "patch_multiprocessing Semaphore_name value args kwargs = MockSemaphore_init value args kwargs"
| "patch_multiprocessing BoundedSemaphore_name value args kwargs =
     MockBoundedSemaphore_init value args kwargs"

text \<open>
  Scoped acquisition, nested \<open>n\<close> deep around an empty body:
  \<^verbatim>\<open>with m: with m: ... pass\<close>. The \<^verbatim>\<open>with\<close> statement calls \<^verbatim>\<open>__enter__\<close>, runs
  the block, and calls \<^verbatim>\<open>__exit__\<close> whether the block finished or raised.
\<close>

fun with_nested :: "nat \<Rightarrow> mock \<Rightarrow> mock outcome" where
  "with_nested 0 m = Returns m"
| "with_nested (Suc n) m =
     (case mock_enter m of
        Raises e \<Rightarrow> Raises e
      | Blocks \<Rightarrow> Blocks
      | Returns (_, m1) \<Rightarrow>
          (case with_nested n m1 of
             Blocks \<Rightarrow> Blocks
           | Raises e \<Rightarrow>
               (case mock_exit (Some e) m1 of
                  Returns _ \<Rightarrow> Raises e | Raises e' \<Rightarrow> Raises e' | Blocks \<Rightarrow> Blocks)
           | Returns m2 \<Rightarrow>
               (case mock_exit None m2 of
                  Returns (_, m3) \<Rightarrow> Returns m3 | Raises e' \<Rightarrow> Raises e' | Blocks \<Rightarrow> Blocks)))"

text \<open>
  What holds of every object the constructors build and is kept by acquiring and
  releasing: a counter is never negative, and never above the bound.
\<close>

fun consistent :: "mock \<Rightarrow> bool" where
  "consistent (MockSemaphore (Semaphore v)) = (0 \<le> v)"
| "consistent (MockBoundedSemaphore (BoundedSemaphore v i)) = (0 \<le> v \<and> v \<le> i)"
| "consistent _ = True"

section \<open>Reading the fixed arguments\<close>

text \<open>
  The fixed arguments are pairs of an option and its value; \<open>option_values k\<close> lists the
  values given for the option \<open>k\<close>, in the order they appear. The directories the module
  treats as writable all lie under \<^verbatim>\<open>/tmp\<close>.
\<close>

fun option_values :: "string \<Rightarrow> string list \<Rightarrow> string list" where
  "option_values k (f # v # rest) =
     (if f = k then v # option_values k rest else option_values k rest)"
| "option_values k _ = []"

definition under_tmp :: "string \<Rightarrow> bool" where
  "under_tmp p = (p = ''/tmp'' \<or> prefix ''/tmp/'' p)"

text \<open>
  Modelled from the spec: the tool's reading of an option that is given more than once,
  which is not part of this module. The spec says of the two target selectors that "the
  override wins because it appears later": the value the tool uses for an option is the
  last one given, and none when the option is not given.
\<close>

definition effective_option :: "string \<Rightarrow> string list \<Rightarrow> string option" where
  "effective_option k args =
     (case option_values k args of [] \<Rightarrow> None | v # vs \<Rightarrow> Some (last (v # vs)))"

section \<open>Concrete runs\<close>

text \<open>
  Two tools and two transfer commands for the concrete runs below. The outside world is
  a counter that each of them advances, so that a call that was made shows.
\<close>

definition dbt_succeeds :: "nat dbt_runner" where
  "dbt_succeeds args w = (\<lparr>success = True\<rparr>, Suc w)"

definition dbt_fails :: "nat dbt_runner" where
  "dbt_fails args w = (\<lparr>success = False\<rparr>, Suc w)"

definition aws_exits :: "int \<Rightarrow> nat runner" where
  "aws_exits code argv w =
     (Inr \<lparr>returncode = code, stdout = ''out'', stderr = ''err''\<rparr>, Suc w)"

definition aws_missing :: "nat runner" where
  "aws_missing argv w = (Inl (OSError ''No such file or directory''), Suc w)"

definition aws_interrupted :: "nat runner" where
  "aws_interrupted argv w = (Inl (KeyboardInterrupt []), Suc w)"

definition fresh :: "(nat, unit) state" where
  "fresh = load_module Map.empty 0"

definition with_bucket :: "(nat, unit) state" where
  "with_bucket = load_module [''DBT_STATE_BUCKET'' \<mapsto> ''state-bucket'', ''ENVIRONMENT'' \<mapsto> ''prod''] 0"

section \<open>What the handler does to the state\<close>

lemma handler_frame:
  "environ (snd (handler dbt ev ctx st)) = environ st"
  "default_args (snd (handler dbt ev ctx st)) = default_args st"
  "subprocess_calls (snd (handler dbt ev ctx st)) = subprocess_calls st"
  by (simp_all add: handler_def dbt_invoke_def print_def Let_def split: prod.splits)

lemma handler_invocations:
  "dbt_invocations (snd (handler dbt ev ctx st)) =
     dbt_invocations st @ [dict_get ev ''command'' [''build''] @ default_args st @
       dict_get ev ''cli_args'' [''--select'', ''+my_second_dbt_model'']]"
  by (simp add: handler_def dbt_invoke_def print_def Let_def split: prod.splits)

lemma handler_result:
  "fst (handler dbt ev ctx st) =
     (if success (fst (dbt (dict_get ev ''command'' [''build''] @ default_args st @
            dict_get ev ''cli_args'' [''--select'', ''+my_second_dbt_model'']) (world st)))
      then Inr \<lparr>statusCode = 200, body = ''DBT build completed''\<rparr>
      else Inl (Exception ''DBT build failed''))"
  by (simp add: handler_def dbt_invoke_def print_def Let_def split: prod.splits)

lemma default_args_load:
  "default_args (load_module env w) =
     [''--target'', ''dev'', ''--log-path'', ''/tmp/logs'', ''--target-path'', ''/tmp/target'',
      ''--target'', getenv_default env ''ENVIRONMENT'' ''dev'', ''--profiles-dir'', ''.'']"
  by (simp add: load_module_def make_default_args_def set_environ_def getenv_default_def)

lemma load_module_fields:
  "subprocess_calls (load_module env w) = []"
  "dbt_invocations (load_module env w) = []"
  "world (load_module env w) = w"
  "printed (load_module env w) = []"
  by (simp_all add: load_module_def)

lemma getenv_load:
  "getenv (environ (load_module env w)) ''DBT_STATE_BUCKET'' = env ''DBT_STATE_BUCKET''"
  "getenv_default (environ (load_module env w)) ''ENVIRONMENT'' d =
     getenv_default env ''ENVIRONMENT'' d"
  by (simp_all add: load_module_def set_environ_def getenv_def getenv_default_def)

section \<open>Persisting after a successful run\<close>

text \<open>
  Claim C1: when the tool succeeds and a bucket is configured, the handler attempts
  exactly one outbound full-mirror transfer before it returns. The handler does not: with
  the bucket \<^verbatim>\<open>state-bucket\<close> configured and a tool that succeeds, it returns status 200
  and has started no transfer command, because its call of \<^verbatim>\<open>sync_target_to_s3\<close> is
  commented out.
\<close>

theorem handler_attempts_no_transfer:
  "getenv (environ with_bucket) ''DBT_STATE_BUCKET'' = Some ''state-bucket'' \<and>
   fst (handler dbt_succeeds Map.empty () with_bucket) =
     Inr \<lparr>statusCode = 200, body = ''DBT build completed''\<rparr> \<and>
   subprocess_calls (snd (handler dbt_succeeds Map.empty () with_bucket)) = []"
  by (simp add: handler_frame handler_result with_bucket_def load_module_fields getenv_load
      dbt_succeeds_def)

text \<open>
  The persist operation itself does what the claim describes. With a bucket configured it
  starts one transfer command, the mirror of \<^verbatim>\<open>/tmp/target\<close> to
  \<^verbatim>\<open>s3://<bucket>/<environment>/target/\<close> with deletion, and what it prints afterwards is
  chosen by the exit code when the command completes, and is the error line when running
  the command raised an exception that derives from \<^verbatim>\<open>Exception\<close>.
\<close>

lemma sync_target_to_s3_transfer:
  assumes "getenv (environ st) ''DBT_STATE_BUCKET'' = Some bucket" and "bucket \<noteq> []"
  shows "(let s3_path = ''s3://'' @ bucket @ ''/'' @
                 getenv_default (environ st) ''ENVIRONMENT'' ''dev'' @ ''/target/'';
              argv = [''aws'', ''s3'', ''sync'', ''/tmp/target'', s3_path, ''--delete'', ''--quiet'']
          in subprocess_calls (snd (sync_target_to_s3 run st)) = subprocess_calls st @ [argv] \<and>
             printed (snd (sync_target_to_s3 run st)) =
               printed st @ Text (''Syncing dbt target to '' @ s3_path) #
                 (case fst (run argv (world st)) of
                    Inl e \<Rightarrow>
                      if is_Exception e
                      then [Text (''ERROR: Failed to sync target to S3: '' @ exc_str e)]
                      else []
                  | Inr result \<Rightarrow>
                      if returncode result = 0
                      then [Text (check_mark @ '' Successfully synced dbt target to '' @ s3_path)]
                      else [Text ''WARNING: Failed to sync target to S3'',
                            Text (''stdout: '' @ stdout result),
                            Text (''stderr: '' @ stderr result)]))"
  using assms
  by (simp add: sync_target_to_s3_def sync_try_def subprocess_run_def print_def Let_def
      s3_path_of_def split: prod.splits sum.splits)

lemma sync_target_to_s3_transfer_example:
  "subprocess_calls (snd (sync_target_to_s3 (aws_exits 1) with_bucket)) =
     [[''aws'', ''s3'', ''sync'', ''/tmp/target'', ''s3://state-bucket/prod/target/'',
       ''--delete'', ''--quiet'']] \<and>
   printed (snd (sync_target_to_s3 (aws_exits 1) with_bucket)) =
     [Text ''Syncing dbt target to s3://state-bucket/prod/target/'',
      Text ''WARNING: Failed to sync target to S3'',
      Text ''stdout: out'', Text ''stderr: err'']"
  using sync_target_to_s3_transfer [of with_bucket "''state-bucket''" "aws_exits 1"]
  by (simp add: with_bucket_def load_module_def set_environ_def getenv_def getenv_default_def
      aws_exits_def Let_def)

section \<open>The result of an invocation\<close>

text \<open>
  Claim C2, as stated: every invocation returns a result whose status code is 200 when
  the tool succeeds and 500 when it fails. With a failing tool the handler returns no
  result at all: it raises.
\<close>

theorem failed_run_returns_no_response:
  "fst (handler dbt_fails Map.empty () fresh) = Inl (Exception ''DBT build failed'')"
  by (simp add: handler_result dbt_fails_def)

text \<open>
  Claim C2, as amended: the handler returns a result exactly when the tool run succeeds,
  and that result carries status code 200 and the body message
  \<^verbatim>\<open>DBT build completed\<close>; when the run fails the handler raises instead, so a result
  with status code 500 is never returned.
\<close>

theorem handler_status_code:
  "fst (handler dbt ev ctx st) =
     (if success (fst (dbt (dict_get ev ''command'' [''build''] @ default_args st @
            dict_get ev ''cli_args'' [''--select'', ''+my_second_dbt_model'']) (world st)))
      then Inr \<lparr>statusCode = 200, body = ''DBT build completed''\<rparr>
      else Inl (Exception ''DBT build failed'')) \<and>
   fst (handler dbt ev ctx st) \<noteq> Inr \<lparr>statusCode = 500, body = b\<rparr>"
  by (simp add: handler_result)

theorem handler_status_code_witness:
  "fst (handler dbt_succeeds Map.empty () fresh) =
     Inr \<lparr>statusCode = 200, body = ''DBT build completed''\<rparr> \<and>
   fst (handler dbt_fails Map.empty () fresh) \<noteq>
     Inr \<lparr>statusCode = 500, body = ''DBT build completed''\<rparr>"
  using handler_status_code [of dbt_succeeds Map.empty "()" fresh "''DBT build completed''"]
    handler_status_code [of dbt_fails Map.empty "()" fresh "''DBT build completed''"]
  by (simp add: dbt_succeeds_def dbt_fails_def)

text \<open>
  Claim C3: when the tool run fails, no persist transfer is attempted and the failure is
  raised to the handler's caller as the exception \<^verbatim>\<open>Exception("DBT build failed")\<close>.
\<close>

theorem failing_run_raises_without_transfer:
  assumes "\<not> success (fst (dbt (dict_get ev ''command'' [''build''] @ default_args st @
            dict_get ev ''cli_args'' [''--select'', ''+my_second_dbt_model'']) (world st)))"
  shows "fst (handler dbt ev ctx st) = Inl (Exception ''DBT build failed'') \<and>
         subprocess_calls (snd (handler dbt ev ctx st)) = subprocess_calls st"
  using assms by (simp add: handler_result handler_frame)

theorem failing_run_raises_without_transfer_witness:
  "\<not> success (fst (dbt_fails (dict_get Map.empty ''command'' [''build''] @
        default_args with_bucket @
        dict_get Map.empty ''cli_args'' [''--select'', ''+my_second_dbt_model''])
      (world with_bucket))) \<and>
   fst (handler dbt_fails Map.empty () with_bucket) = Inl (Exception ''DBT build failed'') \<and>
   subprocess_calls (snd (handler dbt_fails Map.empty () with_bucket)) = []"
  using failing_run_raises_without_transfer [of dbt_fails Map.empty with_bucket "()"]
  by (simp add: dbt_fails_def with_bucket_def load_module_fields)

section \<open>Transfers and the caller\<close>

text \<open>
  Claim C5, as stated: for every outcome of the transfer command, a raised exception
  included, no exception ever leaves \<^verbatim>\<open>restore_target_from_s3\<close> or
  \<^verbatim>\<open>sync_target_to_s3\<close>. A \<^verbatim>\<open>KeyboardInterrupt\<close> raised while the transfer command
  runs is not an \<^verbatim>\<open>Exception\<close>, so \<^verbatim>\<open>except Exception\<close> does not catch it and it leaves
  both functions.
\<close>

theorem interrupt_leaves_transfers:
  "fst (restore_target_from_s3 aws_interrupted with_bucket) = Inl (KeyboardInterrupt []) \<and>
   fst (sync_target_to_s3 aws_interrupted with_bucket) = Inl (KeyboardInterrupt [])"
  by (simp add: restore_target_from_s3_def restore_try_def sync_target_to_s3_def sync_try_def
      subprocess_run_def aws_interrupted_def with_bucket_def load_module_def set_environ_def
      getenv_def getenv_default_def print_def Let_def)

text \<open>
  Claim C5, as amended: for every environment and every outcome of the transfer command
  that is an exit code, zero or not, or a raised exception deriving from \<^verbatim>\<open>Exception\<close>,
  \<^verbatim>\<open>restore_target_from_s3\<close> and \<^verbatim>\<open>sync_target_to_s3\<close> both return normally to their
  caller; no such exception leaves either of them.
\<close>

theorem transfers_never_raise:
  assumes "\<forall>argv w e. fst (run argv w) = Inl e \<longrightarrow> is_Exception e"
  shows "fst (restore_target_from_s3 run st) = Inr () \<and> fst (sync_target_to_s3 run st) = Inr ()"
proof -
  have caught: "is_Exception e" if "run argv (world st') = (Inl e, w')" for argv st' e w'
    using assms that by (metis fst_conv)
  have "fst (restore_target_from_s3 run st) = Inr ()"
    by (auto simp: restore_target_from_s3_def restore_try_def subprocess_run_def print_def
        Let_def caught split: option.splits prod.splits sum.splits if_splits)
  moreover have "fst (sync_target_to_s3 run st) = Inr ()"
    by (auto simp: sync_target_to_s3_def sync_try_def subprocess_run_def print_def
        Let_def caught split: option.splits prod.splits sum.splits if_splits)
  ultimately show ?thesis by simp
qed

text \<open>
  A run in which the statements under \<^verbatim>\<open>try\<close> do raise, and the function still
  returns.
\<close>

theorem transfers_never_raise_witness:
  "is_Exception (OSError ''No such file or directory'') \<and>
   fst (restore_try aws_missing ''state-bucket'' ''prod'' with_bucket) =
     Inl (OSError ''No such file or directory'') \<and>
   fst (restore_target_from_s3 aws_missing with_bucket) = Inr () \<and>
   fst (sync_try aws_missing ''state-bucket'' ''prod'' with_bucket) =
     Inl (OSError ''No such file or directory'') \<and>
   fst (sync_target_to_s3 aws_missing with_bucket) = Inr ()"
proof -
  have h: "\<forall>argv w e. fst (aws_missing argv w) = Inl e \<longrightarrow> is_Exception e"
    by (auto simp: aws_missing_def)
  have r: "fst (restore_try aws_missing ''state-bucket'' ''prod'' with_bucket) =
     Inl (OSError ''No such file or directory'')"
    by (simp add: restore_try_def subprocess_run_def aws_missing_def Let_def)
  have s: "fst (sync_try aws_missing ''state-bucket'' ''prod'' with_bucket) =
     Inl (OSError ''No such file or directory'')"
    by (simp add: sync_try_def subprocess_run_def aws_missing_def Let_def)
  from transfers_never_raise [OF h, of with_bucket] r s show ?thesis
    by simp
qed

text \<open>
  Claim C6: when \<^verbatim>\<open>DBT_STATE_BUCKET\<close> is not set, restore and persist each return
  without running any transfer command and without touching anything outside the
  interpreter (the baseline and output directories included), and do not raise; all that
  changes is one printed line, an informational one for restore and a warning for
  persist.
\<close>

theorem no_bucket_no_transfer:
  assumes "getenv (environ st) ''DBT_STATE_BUCKET'' = None"
  shows "restore_target_from_s3 run st =
           (Inr (), st\<lparr>printed := printed st @
              [Text ''INFO: DBT_STATE_BUCKET not set. Starting with clean state.'']\<rparr>) \<and>
         sync_target_to_s3 run st =
           (Inr (), st\<lparr>printed := printed st @
              [Text ''WARNING: DBT_STATE_BUCKET not set. Skipping state sync.'']\<rparr>) \<and>
         subprocess_calls (snd (restore_target_from_s3 run st)) = subprocess_calls st \<and>
         subprocess_calls (snd (sync_target_to_s3 run st)) = subprocess_calls st \<and>
         world (snd (restore_target_from_s3 run st)) = world st \<and>
         world (snd (sync_target_to_s3 run st)) = world st"
  using assms
  by (simp add: restore_target_from_s3_def sync_target_to_s3_def print_def Let_def)

theorem no_bucket_no_transfer_witness:
  "getenv (environ fresh) ''DBT_STATE_BUCKET'' = None \<and>
   fst (restore_target_from_s3 (aws_exits 0) fresh) = Inr () \<and>
   printed (snd (restore_target_from_s3 (aws_exits 0) fresh)) =
     [Text ''INFO: DBT_STATE_BUCKET not set. Starting with clean state.''] \<and>
   fst (sync_target_to_s3 (aws_exits 0) fresh) = Inr () \<and>
   printed (snd (sync_target_to_s3 (aws_exits 0) fresh)) =
     [Text ''WARNING: DBT_STATE_BUCKET not set. Skipping state sync.''] \<and>
   subprocess_calls (snd (restore_target_from_s3 (aws_exits 0) fresh)) = [] \<and>
   subprocess_calls (snd (sync_target_to_s3 (aws_exits 0) fresh)) = [] \<and>
   world (snd (restore_target_from_s3 (aws_exits 0) fresh)) = 0 \<and>
   world (snd (sync_target_to_s3 (aws_exits 0) fresh)) = 0"
  using no_bucket_no_transfer [of fresh "aws_exits 0"]
  by (simp add: fresh_def getenv_load load_module_fields)

section \<open>The arguments handed to the tool\<close>

text \<open>
  Claim C7, as stated: for every request the command token sequence passed to the tool is
  non-empty, so the argument list begins with a command token. A request that supplies
  the empty command \<^verbatim>\<open>{"command": []}\<close> is passed on as it is, and the argument list
  then begins with the first fixed argument.
\<close>

theorem empty_command_passed_on:
  "dbt_invocations (snd (handler dbt_succeeds [''command'' \<mapsto> []] () fresh)) =
     [[''--target'', ''dev'', ''--log-path'', ''/tmp/logs'', ''--target-path'', ''/tmp/target'',
       ''--target'', ''dev'', ''--profiles-dir'', ''.'', ''--select'', ''+my_second_dbt_model'']]"
  by (simp add: handler_invocations fresh_def default_args_load load_module_fields
      dict_get_def getenv_default_def)

text \<open>
  Claim C7, as amended: the command token sequence is \<^verbatim>\<open>["build"]\<close> when the request has
  no command, so the argument list handed to the tool then begins with that token; a
  command the request supplies is passed on unchanged, in front of the fixed arguments
  and the extra arguments.
\<close>

theorem command_default_when_absent:
  "dbt_invocations (snd (handler dbt ev ctx st)) =
     dbt_invocations st @
       [(case ev ''command'' of None \<Rightarrow> [''build''] | Some c \<Rightarrow> c) @ default_args st @
        (case ev ''cli_args'' of
           None \<Rightarrow> [''--select'', ''+my_second_dbt_model''] | Some a \<Rightarrow> a)]"
  by (simp add: handler_invocations dict_get_def)

theorem command_default_when_absent_witness:
  "dbt_invocations (snd (handler dbt_succeeds [''cli_args'' \<mapsto> [''--full-refresh'']] () fresh)) =
     [[''build'', ''--target'', ''dev'', ''--log-path'', ''/tmp/logs'', ''--target-path'',
       ''/tmp/target'', ''--target'', ''dev'', ''--profiles-dir'', ''.'', ''--full-refresh'']]"
  using command_default_when_absent
    [of dbt_succeeds "[''cli_args'' \<mapsto> [''--full-refresh'']]" "()" fresh]
  by (simp add: fresh_def default_args_load load_module_fields getenv_default_def)

text \<open>
  Claim C8: for the empty event the defaults apply, command \<^verbatim>\<open>["build"]\<close> and extra
  arguments \<^verbatim>\<open>["--select", "+my_second_dbt_model"]\<close>; for the event
  \<^verbatim>\<open>{"command": ["run"], "cli_args": ["--select", "model_x"]}\<close> with no bucket configured
  the tool is invoked with \<^verbatim>\<open>run\<close>, the fixed arguments and \<^verbatim>\<open>--select model_x\<close>, no
  transfer occurs, and when the tool succeeds the result is status code 200 with body
  \<^verbatim>\<open>DBT build completed\<close>.
\<close>

theorem scenarios:
  assumes "env ''DBT_STATE_BUCKET'' = None"
    and "success (fst (dbt [''run'', ''--target'', ''dev'', ''--log-path'', ''/tmp/logs'',
           ''--target-path'', ''/tmp/target'', ''--target'',
           getenv_default env ''ENVIRONMENT'' ''dev'', ''--profiles-dir'', ''.'',
           ''--select'', ''model_x''] w))"
  shows "dbt_invocations (snd (handler dbt Map.empty ctx (load_module env w))) =
           [[''build''] @ default_args (load_module env w) @
            [''--select'', ''+my_second_dbt_model'']] \<and>
         (let run_event = [''command'' \<mapsto> [''run''], ''cli_args'' \<mapsto> [''--select'', ''model_x'']];
              outcome = handler dbt run_event ctx (load_module env w)
          in dbt_invocations (snd outcome) =
               [[''run'', ''--target'', ''dev'', ''--log-path'', ''/tmp/logs'',
                 ''--target-path'', ''/tmp/target'', ''--target'',
                 getenv_default env ''ENVIRONMENT'' ''dev'', ''--profiles-dir'', ''.'',
                 ''--select'', ''model_x'']] \<and>
             subprocess_calls (snd outcome) = [] \<and>
             fst outcome = Inr \<lparr>statusCode = 200, body = ''DBT build completed''\<rparr>)"
  using assms
  by (simp add: handler_invocations handler_result handler_frame default_args_load
      load_module_fields dict_get_def Let_def)

theorem scenarios_witness:
  "(Map.empty :: environ) ''DBT_STATE_BUCKET'' = None \<and>
   success (fst (dbt_succeeds [''run'', ''--target'', ''dev'', ''--log-path'', ''/tmp/logs'',
           ''--target-path'', ''/tmp/target'', ''--target'',
           getenv_default Map.empty ''ENVIRONMENT'' ''dev'', ''--profiles-dir'', ''.'',
           ''--select'', ''model_x''] 0)) \<and>
   dbt_invocations (snd (handler dbt_succeeds Map.empty () (load_module Map.empty 0))) =
     [[''build'', ''--target'', ''dev'', ''--log-path'', ''/tmp/logs'', ''--target-path'',
       ''/tmp/target'', ''--target'', ''dev'', ''--profiles-dir'', ''.'',
       ''--select'', ''+my_second_dbt_model'']] \<and>
   fst (handler dbt_succeeds [''command'' \<mapsto> [''run''], ''cli_args'' \<mapsto> [''--select'', ''model_x'']]
          () (load_module Map.empty 0)) =
     Inr \<lparr>statusCode = 200, body = ''DBT build completed''\<rparr> \<and>
   subprocess_calls (snd (handler dbt_succeeds
       [''command'' \<mapsto> [''run''], ''cli_args'' \<mapsto> [''--select'', ''model_x'']]
          () (load_module Map.empty 0))) = []"
  using scenarios [of Map.empty dbt_succeeds 0 "()"]
  by (simp add: dbt_succeeds_def default_args_load getenv_default_def Let_def)

text \<open>The directories the module creates as writable are all under \<^verbatim>\<open>/tmp\<close>.\<close>

lemma made_dirs_under_tmp: "list_all under_tmp made_dirs"
  by (simp add: made_dirs_def under_tmp_def)

text \<open>
  Claim C9, as stated: every value of the fixed arguments, the target selector and the
  profile directory among them, is pinned to a writable location. The profile directory
  is pinned to \<^verbatim>\<open>.\<close>, the working directory, which is neither under \<^verbatim>\<open>/tmp\<close> nor one
  of the directories the module creates; the target selector is a name, \<^verbatim>\<open>dev\<close>, not
  a location under \<^verbatim>\<open>/tmp\<close>.
\<close>

theorem profiles_dir_not_under_tmp:
  "option_values ''--profiles-dir'' (default_args fresh) = [''.''] \<and>
   \<not> under_tmp ''.'' \<and> ''.'' \<notin> set made_dirs \<and>
   option_values ''--target'' (default_args fresh) = [''dev'', ''dev''] \<and>
   \<not> under_tmp ''dev''"
  by (simp add: fresh_def default_args_load under_tmp_def made_dirs_def getenv_default_def)

text \<open>
  Claim C9, as amended: in the fixed arguments appended to each invocation the log path
  and the output path are pinned to writable locations under \<^verbatim>\<open>/tmp\<close>, the profile
  directory is pinned to the working directory \<^verbatim>\<open>.\<close>, and the target selector is
  given twice, the value of \<^verbatim>\<open>ENVIRONMENT\<close> (\<^verbatim>\<open>dev\<close> when it is not set) later in the
  argument list than the hardcoded literal \<^verbatim>\<open>dev\<close>, so the override wins.
\<close>

theorem fixed_arguments:
  "(let args = default_args (load_module env w :: ('w, 'c) state)
    in args = [''--target'', ''dev'', ''--log-path'', ''/tmp/logs'',
               ''--target-path'', ''/tmp/target'',
               ''--target'', getenv_default env ''ENVIRONMENT'' ''dev'',
               ''--profiles-dir'', ''.''] \<and>
       option_values ''--log-path'' args = [''/tmp/logs''] \<and> under_tmp ''/tmp/logs'' \<and>
       option_values ''--target-path'' args = [''/tmp/target''] \<and> under_tmp ''/tmp/target'' \<and>
       option_values ''--profiles-dir'' args = [''.''] \<and>
       option_values ''--target'' args = [''dev'', getenv_default env ''ENVIRONMENT'' ''dev''] \<and>
       args ! 1 = ''dev'' \<and> args ! 7 = getenv_default env ''ENVIRONMENT'' ''dev'' \<and>
       effective_option ''--target'' args = Some (getenv_default env ''ENVIRONMENT'' ''dev'') \<and>
       effective_option ''--log-path'' args = Some ''/tmp/logs'' \<and>
       effective_option ''--target-path'' args = Some ''/tmp/target'' \<and>
       effective_option ''--profiles-dir'' args = Some ''.'')"
  by (simp add: default_args_load under_tmp_def effective_option_def Let_def)

theorem fixed_arguments_witness:
  "option_values ''--target'' (default_args with_bucket) = [''dev'', ''prod''] \<and>
   default_args with_bucket ! 7 = ''prod'' \<and>
   option_values ''--profiles-dir'' (default_args with_bucket) = [''.''] \<and>
   effective_option ''--target'' (default_args with_bucket) = Some ''prod''"
proof -
  note fixed_arguments [where ?'c = unit,
      of "[''DBT_STATE_BUCKET'' \<mapsto> ''state-bucket'', ''ENVIRONMENT'' \<mapsto> ''prod'']" "0::nat"]
  then show ?thesis
    by (simp add: with_bucket_def getenv_default_def effective_option_def Let_def)
qed

text \<open>
  Claim C10: the handler changes neither the module-level list \<^verbatim>\<open>default_args\<close> nor the
  process environment; it builds the argument list of each invocation afresh by
  concatenation, so two consecutive invocations with the same event hand identical
  argument lists to the tool.
\<close>

theorem handler_leaves_module_state:
  "environ (snd (handler dbt ev ctx st)) = environ st \<and>
   default_args (snd (handler dbt ev ctx st)) = default_args st \<and>
   dbt_invocations (snd (handler dbt ev ctx' (snd (handler dbt ev ctx st)))) =
     dbt_invocations st @
       [dict_get ev ''command'' [''build''] @ default_args st @
          dict_get ev ''cli_args'' [''--select'', ''+my_second_dbt_model''],
        dict_get ev ''command'' [''build''] @ default_args st @
          dict_get ev ''cli_args'' [''--select'', ''+my_second_dbt_model'']]"
  by (simp add: handler_frame handler_invocations)

theorem handler_leaves_module_state_witness:
  "default_args (snd (handler dbt_fails Map.empty () with_bucket)) = default_args with_bucket \<and>
   dbt_invocations (snd (handler dbt_succeeds Map.empty ()
      (snd (handler dbt_succeeds Map.empty () with_bucket)))) =
     [[''build'', ''--target'', ''dev'', ''--log-path'', ''/tmp/logs'', ''--target-path'',
       ''/tmp/target'', ''--target'', ''prod'', ''--profiles-dir'', ''.'',
       ''--select'', ''+my_second_dbt_model''],
      [''build'', ''--target'', ''dev'', ''--log-path'', ''/tmp/logs'', ''--target-path'',
       ''/tmp/target'', ''--target'', ''prod'', ''--profiles-dir'', ''.'',
       ''--select'', ''+my_second_dbt_model'']]"
  using handler_leaves_module_state [of dbt_fails Map.empty "()" with_bucket "()"]
    handler_leaves_module_state [of dbt_succeeds Map.empty "()" with_bucket "()"]
  by (simp add: with_bucket_def default_args_load load_module_fields dict_get_def
      getenv_default_def)

section \<open>The shim in one thread\<close>

lemma enter_cases:
  assumes "consistent m"
  shows "mock_enter m = Blocks \<or>
     (\<exists>m1. mock_enter m = Returns (True, m1) \<and> consistent m1 \<and>
        (\<forall>a. mock_exit a m1 = Returns ((), m)))"
proof (cases m)
  case (MockRLock l)
  then show ?thesis by (cases l) simp
next
  case (MockLock l)
  then show ?thesis by (cases l) simp
next
  case (MockSemaphore s)
  then show ?thesis using assms by (cases s) simp
next
  case (MockBoundedSemaphore s)
  then show ?thesis using assms by (cases s) simp
qed

lemma with_nested_cases:
  "consistent m \<Longrightarrow> with_nested n m = Returns m \<or> with_nested n m = Blocks"
proof (induction n arbitrary: m)
  case 0
  then show ?case by simp
next
  case (Suc n)
  from enter_cases [OF Suc.prems] show ?case
  proof
    assume "mock_enter m = Blocks"
    then show ?thesis by simp
  next
    assume "\<exists>m1. mock_enter m = Returns (True, m1) \<and> consistent m1 \<and>
        (\<forall>a. mock_exit a m1 = Returns ((), m))"
    then obtain m1 where e: "mock_enter m = Returns (True, m1)" and c: "consistent m1"
      and x: "\<And>a. mock_exit a m1 = Returns ((), m)" by blast
    from Suc.IH [OF c] show ?thesis
      using e x by auto
  qed
qed

lemma rlock_nested: "with_nested n (MockRLock (RLock k)) = Returns (MockRLock (RLock k))"
  by (induction n arbitrary: k) simp_all

lemma patch_cases:
  "patch_multiprocessing name value args kwargs =
     (case name of
        RLock_name \<Rightarrow> Returns (MockRLock (RLock 0))
      | Lock_name \<Rightarrow> Returns (MockLock (Lock False))
      | Semaphore_name \<Rightarrow>
          (let v = (case value of None \<Rightarrow> 1 | Some v \<Rightarrow> v)
           in if v < 0 then Raises (ValueError ''semaphore initial value must be >= 0'')
              else Returns (MockSemaphore (Semaphore v)))
      | BoundedSemaphore_name \<Rightarrow>
          (let v = (case value of None \<Rightarrow> 1 | Some v \<Rightarrow> v)
           in if v < 0 then Raises (ValueError ''semaphore initial value must be >= 0'')
              else Returns (MockBoundedSemaphore (BoundedSemaphore v v))))"
  by (cases name)
    (simp_all add: MockRLock_init_def MockLock_init_def MockSemaphore_init_def
      MockBoundedSemaphore_init_def threading_RLock_def threading_Lock_def
      threading_Semaphore_def threading_BoundedSemaphore_def Let_def)

lemma patch_consistent:
  "patch_multiprocessing name value args kwargs = Returns m \<Longrightarrow> consistent m"
  by (cases name) (auto simp: patch_cases Let_def split: if_splits)

text \<open>
  Claim C4, as stated: constructing any of the four shimmed primitives never fails. A
  counting semaphore asked for with the initial count \<open>-1\<close> is not constructed: the
  wrapped \<^verbatim>\<open>threading.Semaphore\<close> raises \<^verbatim>\<open>ValueError\<close>.
\<close>

theorem negative_count_raises:
  "patch_multiprocessing Semaphore_name (Some (- 1)) [True] [(''ctx'', False)] =
     Raises (ValueError ''semaphore initial value must be >= 0'')"
  by (simp add: patch_cases)

text \<open>
  Claim C4, as amended: for each of the four shimmed primitive kinds, construction does
  not depend on the inter-process parameters it is given, and it succeeds for the two
  lock kinds always and for the two semaphore kinds whenever the initial count is not
  negative; on a constructed primitive, scoped acquisition nested to any depth never
  raises in one thread, one scoped acquisition of an exclusive lock or of a semaphore
  with a positive count returns and leaves the primitive as it was, nested acquisition
  to any depth returns for the reentrant kind, and the reentrant variant's
  ownership check always reports true.
\<close>

theorem shim_primitives:
  fixes args args' :: "'a list" and kwargs kwargs' :: "(string \<times> 'a) list"
  shows
    "patch_multiprocessing name value args kwargs =
       patch_multiprocessing name value args' kwargs' \<and>
     (name = RLock_name \<or> name = Lock_name \<or> 0 \<le> (case value of None \<Rightarrow> 1 | Some v \<Rightarrow> v) \<longrightarrow>
        (\<exists>m. patch_multiprocessing name value args kwargs = Returns m)) \<and>
     (\<forall>m. patch_multiprocessing name value args kwargs = Returns m \<longrightarrow>
        with_nested n m \<noteq> Raises e \<and>
        (name = Lock_name \<or> 1 \<le> (case value of None \<Rightarrow> 1 | Some v \<Rightarrow> v) \<longrightarrow>
           with_nested 1 m = Returns m) \<and>
        (name = RLock_name \<longrightarrow> with_nested n m = Returns m \<and> is_owned m = Some True)) \<and>
     is_owned (MockRLock l) = Some True"
proof -
  have ignored: "patch_multiprocessing name value args kwargs =
       patch_multiprocessing name value args' kwargs'"
    by (simp add: patch_cases)
  have built: "\<exists>m. patch_multiprocessing name value args kwargs = Returns m"
    if "name = RLock_name \<or> name = Lock_name \<or> 0 \<le> (case value of None \<Rightarrow> 1 | Some v \<Rightarrow> v)"
    using that by (cases name) (auto simp: patch_cases Let_def)
  have scoped: "with_nested n m \<noteq> Raises e \<and>
        (name = Lock_name \<or> 1 \<le> (case value of None \<Rightarrow> 1 | Some v \<Rightarrow> v) \<longrightarrow>
           with_nested 1 m = Returns m) \<and>
        (name = RLock_name \<longrightarrow> with_nested n m = Returns m \<and> is_owned m = Some True)"
    if m: "patch_multiprocessing name value args kwargs = Returns m" for m
  proof -
    have "consistent m" using m by (rule patch_consistent)
    then have "with_nested n m = Returns m \<or> with_nested n m = Blocks"
      by (rule with_nested_cases)
    then have no_raise: "with_nested n m \<noteq> Raises e" by auto
    have once: "with_nested 1 m = Returns m"
      if "name = Lock_name \<or> 1 \<le> (case value of None \<Rightarrow> 1 | Some v \<Rightarrow> v)"
      using that m by (cases name) (auto simp: patch_cases Let_def split: if_splits)
    have reentrant: "with_nested n m = Returns m \<and> is_owned m = Some True"
      if "name = RLock_name"
      using that m by (auto simp: patch_cases rlock_nested)
    from no_raise once reentrant show ?thesis by blast
  qed
  have owned: "is_owned (MockRLock l) = Some True" by simp
  from ignored built scoped owned show ?thesis by blast
qed

theorem shim_primitives_witness:
  "(0::int) \<le> 2 \<and>
   patch_multiprocessing Semaphore_name (Some 2) [True] [(''ctx'', False)] =
     Returns (MockSemaphore (Semaphore 2)) \<and>
   with_nested 1 (MockSemaphore (Semaphore 2)) = Returns (MockSemaphore (Semaphore 2)) \<and>
   with_nested 3 (MockSemaphore (Semaphore 2)) = Blocks \<and>
   patch_multiprocessing RLock_name None [True] [(''ctx'', False)] =
     Returns (MockRLock (RLock 0)) \<and>
   with_nested 3 (MockRLock (RLock 0)) = Returns (MockRLock (RLock 0)) \<and>
   is_owned (MockRLock (RLock 0)) = Some True"
  using shim_primitives [of Semaphore_name "Some 2" "[True]" "[(''ctx'', False)]" "[]" "[]" 1]
    shim_primitives [of RLock_name None "[True]" "[(''ctx'', False)]" "[]" "[]" 3]
  by (simp add: patch_cases numeral_3_eq_3)

end
